theory Spec2Isabelle
  imports Main "HOL-Library.Word"
begin

unbundle bit_operations_syntax

section \<open>The SPI transport of the host driver (esp\_spi.c)\<close>

text \<open>
  The development follows \<^verbatim>\<open>src/host/linux/host_driver/esp32/spi/esp_spi.c\<close>.
  Every function of that file is a definition of the same name below. The driver's single
  global \<^verbatim>\<open>spi_context\<close> is threaded through explicitly; every call that leaves the
  file (kernel, platform or sibling subsystem) is recorded in a trace, in program order,
  and so is the \<^verbatim>\<open>memset\<close> that clears the context.
  A NULL dereference or a read beyond a buffer is a value of type \<open>fault\<close>.

  Three things the file uses are declared in headers that are not part of the sources:
  the macro \<^verbatim>\<open>SPI_BUF_SIZE\<close>, which is a parameter \<open>B\<close> of every function that
  mentions it, the layout of \<^verbatim>\<open>struct esp_payload_header\<close>, and the kernel's
  \<^verbatim>\<open>queue_work\<close>; the last two are modelled from the specification and marked so.
  The kernel's \<^verbatim>\<open>destroy_workqueue\<close> is modelled with the work it completes.
\<close>

subsection \<open>Machine types and error numbers\<close>

type_synonym u8 = "8 word"
type_synonym u16 = "16 word"
type_synonym u32 = "32 word"

definition EINVAL :: int where "EINVAL = 22"
definition ENOMEM :: int where "ENOMEM = 12"
definition EFAULT :: int where "EFAULT = 14"
definition ENODEV :: int where "ENODEV = 19"

datatype fault = NullPointerDereference | OutOfBoundsRead

type_synonym 'a result = "fault + 'a"

subsection \<open>Socket buffers\<close>

text \<open>
  An \<^verbatim>\<open>sk_buff\<close> is its data area: \<^verbatim>\<open>skb->len\<close> is the length of \<open>data\<close>.
  A pointer to one is an \<open>sk_buff option\<close>, \<open>None\<close> for NULL.
\<close>

record sk_buff =
  data :: "u8 list"

text \<open>
  \<^verbatim>\<open>esp_alloc_skb\<close> lives in the driver's core, outside this file. Whether the allocation
  succeeds is decided by the environment; a fresh buffer is empty.
\<close>

definition esp_alloc_skb :: "bool \<Rightarrow> nat \<Rightarrow> sk_buff option" where
  "esp_alloc_skb ok n = (if ok then Some \<lparr>data = []\<rparr> else None)"

text \<open>
  \<^verbatim>\<open>skb_put(skb, n)\<close> reads and writes \<^verbatim>\<open>skb->tail\<close> and \<^verbatim>\<open>skb->len\<close>: on NULL it
  faults. Otherwise it extends the data area by \<open>n\<close> bytes that hold whatever the memory
  held before (\<open>junk\<close>) and returns the position of the first new byte, which is never NULL.
\<close>

definition skb_put :: "(nat \<Rightarrow> u8) \<Rightarrow> sk_buff option \<Rightarrow> nat \<Rightarrow> (sk_buff \<times> nat option) result" where
  "skb_put junk skbp n =
     (case skbp of
        None \<Rightarrow> Inl NullPointerDereference
      | Some skb \<Rightarrow>
          Inr (skb\<lparr>data := data skb @ map junk [0..<n]\<rparr>, Some (length (data skb))))"

text \<open>\<^verbatim>\<open>skb_trim(skb, len)\<close> only ever shortens: it does nothing when \<^verbatim>\<open>skb->len <= len\<close>.\<close>

definition skb_trim :: "sk_buff \<Rightarrow> nat \<Rightarrow> sk_buff" where
  "skb_trim skb n = (if length (data skb) > n then skb\<lparr>data := take n (data skb)\<rparr> else skb)"

text \<open>Writing \<open>bs\<close> into a data area from position \<open>p\<close> on (\<^verbatim>\<open>memcpy\<close>, \<^verbatim>\<open>memset\<close>, DMA).\<close>

definition store_bytes :: "nat \<Rightarrow> u8 list \<Rightarrow> u8 list \<Rightarrow> u8 list" where
  "store_bytes p bs d = take p d @ bs @ drop (p + length bs) d"

text \<open>
  \<^verbatim>\<open>memcpy(dst, src, n)\<close> reads the \<open>n\<close> bytes \<open>src 0\<close>, ..., \<open>src (n - 1)\<close>: the source is the
  memory that starts at the pointer, as a function of the distance from it.
\<close>

definition memcpy :: "nat \<Rightarrow> (nat \<Rightarrow> u8) \<Rightarrow> nat \<Rightarrow> u8 list \<Rightarrow> u8 list" where
  "memcpy p src n d = store_bytes p (map src [0..<n]) d"

definition memset :: "nat \<Rightarrow> u8 \<Rightarrow> nat \<Rightarrow> u8 list \<Rightarrow> u8 list" where
  "memset p c n d = store_bytes p (replicate n c) d"

subsection \<open>The frame header\<close>

text \<open>
  Modelled from the spec: \<^verbatim>\<open>struct esp_payload_header\<close> is declared in a header that is
  not among the sources. The specification gives the wire format: a header of 4 bytes,
  the 16-bit little-endian \<open>offset\<close> field at bytes 0 and 1, the 16-bit little-endian
  \<open>len\<close> field at bytes 2 and 3.
\<close>

definition sizeof_esp_payload_header :: nat where
  "sizeof_esp_payload_header = 4"

definition offset_field :: nat where "offset_field = 0"
definition len_field :: nat where "len_field = 2"

text \<open>
  \<^verbatim>\<open>le16_to_cpu\<close> of the two bytes at position \<open>p\<close>; reading past the end of the data
  area is a fault.
\<close>

definition le16_at :: "u8 list \<Rightarrow> nat \<Rightarrow> u16 result" where
  "le16_at d p =
     (if p + 2 \<le> length d
      then Inr (word_of_nat (unat (d ! p) + 256 * unat (d ! (p + 1))))
      else Inl OutOfBoundsRead)"

subsection \<open>The transport context and the outside world\<close>

record esp_adapter =
  if_context :: bool
  if_ops :: bool
  hcidev :: bool

text \<open>
  The pointers of \<^verbatim>\<open>struct esp_spi_context\<close> are options or flags (\<open>None\<close> and \<open>False\<close>
  for NULL); the two \<^verbatim>\<open>sk_buff_head\<close> queues are lists, head first.
  \<open>spi_workqueue\<close> holds the number of queued activations of \<open>spi_work\<close>, and
  \<open>spi_work_pending\<close> is the pending bit of the work item.
\<close>

record esp_spi_context =
  adapter :: "esp_adapter option"
  esp_spi_dev :: bool
  spi_workqueue :: "nat option"
  spi_work_pending :: bool
  tx_q :: "sk_buff list"
  rx_q :: "sk_buff list"

text \<open>
  The context after \<^verbatim>\<open>memset(&spi_context, 0, sizeof(spi_context))\<close>: every pointer is
  NULL. The two queue heads are all-zero too, which is not the state that
  \<^verbatim>\<open>skb_queue_head_init\<close> sets up (a head that points to itself): the lists \<open>[]\<close> below
  only say that no frame can be reached through them any more. A queue operation on such a
  head is outside the model (in C, \<^verbatim>\<open>skb_queue_tail\<close> on it writes through a NULL
  pointer); no statement below is about one.
\<close>

definition zero_context :: esp_spi_context where
  "zero_context =
     \<lparr>adapter = None, esp_spi_dev = False, spi_workqueue = None, spi_work_pending = False,
      tx_q = [], rx_q = []\<rparr>"

datatype event =
    Printk
  | Spi_sync_transfer "u8 list option" "u8 list" nat
  | Dev_kfree_skb sk_buff
  | Esp_process_new_packet_intr
  | Create_workqueue bool
  | Spi_busnum_to_master bool
  | Spi_new_device bool
  | Spi_setup int
  | Gpio_request int
  | Gpio_direction_input int
  | Request_irq int
  | Free_irq
  | Spi_master_put
  | Msleep nat
  | Esp_serial_init int
  | Esp_add_card int
  | Esp_init_bt int
  | Destroy_workqueue
  | Esp_serial_cleanup
  | Esp_remove_card
  | Esp_deinit_bt
  | Gpio_free
  | Spi_unregister_device
  | Memset_spi_context

record world =
  ctx :: esp_spi_context
  trace :: "event list"

definition emit :: "event \<Rightarrow> world \<Rightarrow> world" where
  "emit e w = w\<lparr>trace := trace w @ [e]\<rparr>"

text \<open>The calls made between two states of the world.\<close>

definition new_events :: "world \<Rightarrow> world \<Rightarrow> event list" where
  "new_events w w' = drop (length (trace w)) (trace w')"

subsection \<open>Queues\<close>

text \<open>\<^verbatim>\<open>skb_dequeue\<close> takes the head of a queue, or returns NULL on an empty one.\<close>

definition skb_dequeue :: "sk_buff list \<Rightarrow> sk_buff option \<times> sk_buff list" where
  "skb_dequeue q = (case q of [] \<Rightarrow> (None, []) | skb # rest \<Rightarrow> (Some skb, rest))"

definition skb_queue_tail :: "sk_buff list \<Rightarrow> sk_buff \<Rightarrow> sk_buff list" where
  "skb_queue_tail q skb = q @ [skb]"

subsection \<open>\<^verbatim>\<open>read_packet\<close> and \<^verbatim>\<open>write_packet\<close>\<close>

definition read_packet :: "esp_adapter option \<Rightarrow> world \<Rightarrow> sk_buff option \<times> world" where
  "read_packet ad w =
     (case ad of
        None \<Rightarrow> (None, emit Printk w)
      | Some a \<Rightarrow>
          if \<not> if_context a then (None, emit Printk w)
          else if esp_spi_dev (ctx w) then
            (let (skb, q) = skb_dequeue (rx_q (ctx w))
             in (skb, w\<lparr>ctx := (ctx w)\<lparr>rx_q := q\<rparr>\<rparr>))
          else (None, emit Printk w))"

text \<open>
  What \<^verbatim>\<open>write_packet\<close> gets from outside: whether \<^verbatim>\<open>esp_alloc_skb\<close> succeeds and what
  the fresh memory holds.
\<close>

record alloc_env =
  alloc_ok :: bool
  junk :: "nat \<Rightarrow> u8"

text \<open>The first test of \<^verbatim>\<open>write_packet\<close>, with C's left-to-right evaluation.\<close>

definition invalid_args :: "nat \<Rightarrow> esp_adapter option \<Rightarrow> (nat \<Rightarrow> u8) option \<Rightarrow> u32 \<Rightarrow> bool" where
  "invalid_args B ad buf sz =
     (case ad of
        None \<Rightarrow> True
      | Some a \<Rightarrow> \<not> if_context a \<or> buf = None \<or> sz = 0 \<or> unat sz > B)"

text \<open>
  \<open>buf\<close> is the caller's pointer: NULL, or the memory that starts there. \<open>sz\<close> (the
  source's \<^verbatim>\<open>size\<close>) is a \<^verbatim>\<open>u32\<close>, so the padding is computed modulo \<open>2 ^ 32\<close>.
\<close>

definition write_packet ::
  "nat \<Rightarrow> alloc_env \<Rightarrow> esp_adapter option \<Rightarrow> (nat \<Rightarrow> u8) option \<Rightarrow> u32 \<Rightarrow> world
     \<Rightarrow> (int \<times> world) result" where
  "write_packet B env ad buf sz w =
     (if invalid_args B ad buf sz then Inr (- EINVAL, emit Printk w)
      else
        let sz' = sz + (4 - (sz AND 3)) in
        case esp_alloc_skb (alloc_ok env) (unat sz') of
          None \<Rightarrow> Inr (- ENOMEM, w)
        | Some skb \<Rightarrow>
            (case skb_put (junk env) (Some skb) (unat sz') of
               Inl f \<Rightarrow> Inl f
             | Inr (skb1, tx_buf) \<Rightarrow>
                 (case tx_buf of
                    None \<Rightarrow> Inr (- ENOMEM, emit (Dev_kfree_skb skb1) w)
                  | Some p \<Rightarrow>
                      (case buf of
                         None \<Rightarrow> Inl NullPointerDereference
                       | Some src \<Rightarrow>
                           let skb2 = skb1\<lparr>data := memcpy p src (unat sz') (data skb1)\<rparr>
                           in Inr (0, w\<lparr>ctx := (ctx w)
                                          \<lparr>tx_q := skb_queue_tail (tx_q (ctx w)) skb2\<rparr>\<rparr>)))))"

subsection \<open>\<^verbatim>\<open>process_rx_buf\<close>\<close>

text \<open>
  \<open>len\<close> is a \<^verbatim>\<open>u16\<close>: \<^verbatim>\<open>len += sizeof(struct esp_payload_header)\<close> is an addition
  modulo \<open>2 ^ 16\<close>, and the comparison with \<^verbatim>\<open>SPI_BUF_SIZE\<close> sees the wrapped value.
\<close>

definition process_rx_buf :: "nat \<Rightarrow> sk_buff option \<Rightarrow> world \<Rightarrow> (int \<times> world) result" where
  "process_rx_buf B skbp w =
     (case skbp of
        None \<Rightarrow> Inr (- EINVAL, w)
      | Some skb \<Rightarrow>
          (case le16_at (data skb) offset_field of
             Inl f \<Rightarrow> Inl f
           | Inr offset \<Rightarrow>
               if unat offset \<noteq> sizeof_esp_payload_header then Inr (- EINVAL, w)
               else
                 (case le16_at (data skb) len_field of
                    Inl f \<Rightarrow> Inl f
                  | Inr len0 \<Rightarrow>
                      if len0 = 0 then Inr (- EINVAL, w)
                      else
                        let len = len0 + word_of_nat sizeof_esp_payload_header in
                        if unat len > B then Inr (- EINVAL, w)
                        else
                          let skb' = skb_trim skb (unat len);
                              w1 = w\<lparr>ctx := (ctx w)\<lparr>rx_q := skb_queue_tail (rx_q (ctx w)) skb'\<rparr>\<rparr>
                          in Inr (0, emit Esp_process_new_packet_intr w1))))"

subsection \<open>\<^verbatim>\<open>esp_spi_work\<close>\<close>

text \<open>
  What one activation gets from outside: the allocation, the return value of
  \<^verbatim>\<open>spi_sync_transfer\<close>, and the bytes the device wrote into the receive buffer
  (at most \<open>B\<close> of them count; the rest of the buffer keeps what it held).
\<close>

record work_env = alloc_env +
  spi_ret :: int
  spi_rx :: "u8 list"

text \<open>
  The transfer is recorded with the transmit buffer (NULL when the queue was empty), the
  receive buffer as it is handed to the device, and the length.
\<close>

definition esp_spi_work :: "nat \<Rightarrow> work_env \<Rightarrow> world \<Rightarrow> world result" where
  "esp_spi_work B env w =
     (let (tx_skb, q) = skb_dequeue (tx_q (ctx w));
          w1 = w\<lparr>ctx := (ctx w)\<lparr>tx_q := q\<rparr>\<rparr>;
          tx_buf = map_option data tx_skb;
          rx_skb = esp_alloc_skb (alloc_ok env) B
      in case skb_put (junk env) rx_skb B of
           Inl f \<Rightarrow> Inl f
         | Inr (rx_skb1, rx_buf) \<Rightarrow>
             (case rx_buf of
                None \<Rightarrow> Inl NullPointerDereference
              | Some p \<Rightarrow>
                  let rx_skb2 = rx_skb1\<lparr>data := memset p 0 B (data rx_skb1)\<rparr>;
                      w2 = emit (Spi_sync_transfer tx_buf (take B (drop p (data rx_skb2))) B) w1;
                      rx_skb3 = rx_skb2\<lparr>data := store_bytes p (take B (spi_rx env)) (data rx_skb2)\<rparr>;
                      w3 = (if spi_ret env \<noteq> 0 then emit Printk w2 else w2)
                  in case process_rx_buf B (Some rx_skb3) w3 of
                       Inl f \<Rightarrow> Inl f
                     | Inr (r, w4) \<Rightarrow>
                         let w5 = (if r \<noteq> 0 then emit (Dev_kfree_skb rx_skb3) w4 else w4)
                         in Inr (case tx_skb of
                                   None \<Rightarrow> w5
                                 | Some t \<Rightarrow> emit (Dev_kfree_skb t) w5)))"

subsection \<open>\<^verbatim>\<open>spi_interrupt_handler\<close>\<close>

text \<open>
  Modelled from the spec: \<^verbatim>\<open>queue_work\<close> belongs to the kernel, not to the sources. The
  specification describes the hand-off as a single-slot pending-activation signal: a work
  item that is already pending is not queued again (the call returns false), otherwise it
  is marked pending and one activation is queued.
\<close>

definition queue_work :: "esp_spi_context \<Rightarrow> bool \<times> esp_spi_context" where
  "queue_work c =
     (case spi_workqueue c of
        None \<Rightarrow> (False, c)
      | Some n \<Rightarrow>
          if spi_work_pending c then (False, c)
          else (True, c\<lparr>spi_workqueue := Some (Suc n), spi_work_pending := True\<rparr>))"

datatype irqreturn = IRQ_NONE | IRQ_HANDLED

definition spi_interrupt_handler :: "world \<Rightarrow> irqreturn \<times> world" where
  "spi_interrupt_handler w =
     (if spi_workqueue (ctx w) \<noteq> None
      then (IRQ_HANDLED, w\<lparr>ctx := snd (queue_work (ctx w))\<rparr>)
      else (IRQ_HANDLED, w))"

text \<open>\<open>n\<close> readiness edges in a row, with no activation starting in between.\<close>

fun edges :: "nat \<Rightarrow> world \<Rightarrow> world" where
  "edges 0 w = w"
| "edges (Suc n) w = edges n (snd (spi_interrupt_handler w))"

text \<open>The activations of \<open>spi_work\<close> that wait in the work queue.\<close>

definition queued_activations :: "esp_spi_context \<Rightarrow> nat" where
  "queued_activations c = (case spi_workqueue c of None \<Rightarrow> 0 | Some n \<Rightarrow> n)"

text \<open>
  The work item is pending exactly when one activation of it is queued: so it is after
  \<^verbatim>\<open>INIT_WORK\<close>, while an activation waits, and while one runs (the kernel clears the
  bit and takes the activation off the queue before it calls \<^verbatim>\<open>esp_spi_work\<close>).
\<close>

definition wq_consistent :: "esp_spi_context \<Rightarrow> bool" where
  "wq_consistent c =
     (case spi_workqueue c of
        None \<Rightarrow> True
      | Some n \<Rightarrow> n = (if spi_work_pending c then 1 else 0))"

subsection \<open>\<^verbatim>\<open>spi_exit\<close>\<close>

text \<open>
  \<^verbatim>\<open>destroy_workqueue\<close> belongs to the kernel, not to the sources. It lets the work that
  is queued run to completion before it destroys the queue: for each queued activation the
  worker takes it off the queue, clears the pending bit and calls \<^verbatim>\<open>esp_spi_work\<close>.
  \<open>envs k\<close> is what the activation that runs with \<open>k\<close> others still queued gets from
  outside.
\<close>

fun run_pending :: "nat \<Rightarrow> (nat \<Rightarrow> work_env) \<Rightarrow> nat \<Rightarrow> world \<Rightarrow> world result" where
  "run_pending B envs 0 w = Inr w"
| "run_pending B envs (Suc n) w =
     (case esp_spi_work B (envs n)
             (w\<lparr>ctx := (ctx w)\<lparr>spi_workqueue := Some n, spi_work_pending := False\<rparr>\<rparr>) of
        Inl f \<Rightarrow> Inl f
      | Inr w' \<Rightarrow> run_pending B envs n w')"

definition destroy_workqueue :: "nat \<Rightarrow> (nat \<Rightarrow> work_env) \<Rightarrow> world \<Rightarrow> world result" where
  "destroy_workqueue B envs w =
     run_pending B envs (queued_activations (ctx w)) (emit Destroy_workqueue w)"

definition spi_exit :: "nat \<Rightarrow> (nat \<Rightarrow> work_env) \<Rightarrow> world \<Rightarrow> world result" where
  "spi_exit B envs w =
     (case (if spi_workqueue (ctx w) \<noteq> None then destroy_workqueue B envs w else Inr w) of
        Inl f \<Rightarrow> Inl f
      | Inr w1 \<Rightarrow>
          let w2 = emit Esp_serial_cleanup w1;
              w3 = emit Esp_remove_card w2
          in case adapter (ctx w3) of
               None \<Rightarrow> Inl NullPointerDereference
             | Some a \<Rightarrow>
                 let w4 = (if hcidev a then emit Esp_deinit_bt w3 else w3);
                     w5 = emit Gpio_free w4;
                     w6 = (if esp_spi_dev (ctx w5) then emit Spi_unregister_device w5 else w5)
                 in Inr ((emit Memset_spi_context w6)\<lparr>ctx := zero_context\<rparr>))"

definition esp_deinit_interface_layer ::
  "nat \<Rightarrow> (nat \<Rightarrow> work_env) \<Rightarrow> world \<Rightarrow> world result" where
  "esp_deinit_interface_layer B envs w = spi_exit B envs w"

subsection \<open>\<^verbatim>\<open>spi_init\<close> and \<^verbatim>\<open>esp_init_interface_layer\<close>\<close>

text \<open>
  What initialisation gets from outside: the compile-time switch and the result of every
  fallible call, in the order of the calls.
\<close>

record init_env =
  CONFIG_SUPPORT_ESP_SERIAL :: bool
  create_workqueue_ok :: bool
  spi_busnum_to_master_ok :: bool
  spi_new_device_ok :: bool
  spi_setup_status :: int
  gpio_request_status :: int
  gpio_direction_input_status :: int
  request_irq_status :: int
  esp_serial_init_status :: int
  esp_add_card_status :: int
  esp_init_bt_status :: int

text \<open>\<^verbatim>\<open>spi_exit(); return code;\<close>\<close>

definition rollback ::
  "nat \<Rightarrow> (nat \<Rightarrow> work_env) \<Rightarrow> int \<Rightarrow> world \<Rightarrow> (int \<times> world) result" where
  "rollback B envs code w =
     (case spi_exit B envs w of Inl f \<Rightarrow> Inl f | Inr w' \<Rightarrow> Inr (code, w'))"

text \<open>\<^verbatim>\<open>spi_exit(); printk(...); return code;\<close>\<close>

definition rollback_log ::
  "nat \<Rightarrow> (nat \<Rightarrow> work_env) \<Rightarrow> int \<Rightarrow> world \<Rightarrow> (int \<times> world) result" where
  "rollback_log B envs code w =
     (case spi_exit B envs w of
        Inl f \<Rightarrow> Inl f
      | Inr w' \<Rightarrow> Inr (code, emit Printk w'))"

text \<open>From \<^verbatim>\<open>esp_add_card\<close> to the end of \<^verbatim>\<open>spi_init\<close>.\<close>

definition spi_init_cards ::
  "nat \<Rightarrow> (nat \<Rightarrow> work_env) \<Rightarrow> init_env \<Rightarrow> world
     \<Rightarrow> (int \<times> world) result" where
  "spi_init_cards B envs env w =
     (let w1 = emit (Esp_add_card (esp_add_card_status env)) w
      in if esp_add_card_status env \<noteq> 0 then rollback_log B envs (esp_add_card_status env) w1
         else
           let w2 = emit (Esp_init_bt (esp_init_bt_status env)) w1
           in if esp_init_bt_status env \<noteq> 0 then rollback_log B envs (esp_init_bt_status env) w2
              else Inr (esp_init_bt_status env, emit (Msleep 200) w2))"

text \<open>From \<^verbatim>\<open>gpio_request\<close> to the serial interface.\<close>

definition spi_init_lines ::
  "nat \<Rightarrow> (nat \<Rightarrow> work_env) \<Rightarrow> init_env \<Rightarrow> world
     \<Rightarrow> (int \<times> world) result" where
  "spi_init_lines B envs env w =
     (let w1 = emit (Gpio_request (gpio_request_status env)) w
      in if gpio_request_status env \<noteq> 0
         then rollback B envs (gpio_request_status env) (emit Printk w1)
         else
           let w2 = emit (Gpio_direction_input (gpio_direction_input_status env)) w1
           in if gpio_direction_input_status env \<noteq> 0
              then rollback B envs (gpio_direction_input_status env) (emit Printk w2)
              else
                let w3 = emit (Request_irq (request_irq_status env)) w2
                in if request_irq_status env \<noteq> 0
                   then rollback B envs (request_irq_status env) (emit Printk w3)
                   else
                     let w4 = emit (Msleep 200) w3
                     in if CONFIG_SUPPORT_ESP_SERIAL env
                        then
                          let w5 = emit (Esp_serial_init (esp_serial_init_status env)) w4
                          in if esp_serial_init_status env \<noteq> 0
                             then rollback_log B envs (esp_serial_init_status env) w5
                             else spi_init_cards B envs env w5
                        else spi_init_cards B envs env w4)"

definition spi_init ::
  "nat \<Rightarrow> (nat \<Rightarrow> work_env) \<Rightarrow> init_env \<Rightarrow> world
     \<Rightarrow> (int \<times> world) result" where
  "spi_init B envs env w =
     (let w1 = emit (Create_workqueue (create_workqueue_ok env))
                 (w\<lparr>ctx := (ctx w)\<lparr>spi_workqueue :=
                                      (if create_workqueue_ok env then Some 0 else None)\<rparr>\<rparr>)
      in if spi_workqueue (ctx w1) = None then rollback B envs (- EFAULT) w1
         else
           let w2 = w1\<lparr>ctx := (ctx w1)\<lparr>spi_work_pending := False, tx_q := [], rx_q := []\<rparr>\<rparr>;
               w3 = emit (Spi_busnum_to_master (spi_busnum_to_master_ok env)) w2
           in if \<not> spi_busnum_to_master_ok env then rollback B envs (- ENODEV) (emit Printk w3)
              else
                let w4 = emit (Spi_new_device (spi_new_device_ok env))
                           (w3\<lparr>ctx := (ctx w3)\<lparr>esp_spi_dev := spi_new_device_ok env\<rparr>\<rparr>)
                in if \<not> esp_spi_dev (ctx w4) then rollback B envs (- ENODEV) (emit Printk w4)
                   else
                     let w5 = emit (Spi_setup (spi_setup_status env)) w4
                     in if spi_setup_status env \<noteq> 0
                        then rollback B envs (spi_setup_status env) (emit Printk w5)
                        else spi_init_lines B envs env (emit Printk w5))"

text \<open>
  The adapter is the caller's object; the context keeps the pointer to it, here the object
  as \<^verbatim>\<open>esp_init_interface_layer\<close> leaves it.
\<close>

definition esp_init_interface_layer ::
  "nat \<Rightarrow> (nat \<Rightarrow> work_env) \<Rightarrow> init_env \<Rightarrow> esp_adapter option \<Rightarrow> world
     \<Rightarrow> (int \<times> world) result" where
  "esp_init_interface_layer B envs env ad w =
     (case ad of
        None \<Rightarrow> Inr (- EINVAL, w)
      | Some a \<Rightarrow>
          let a' = a\<lparr>if_context := True, if_ops := True\<rparr>
          in spi_init B envs env
               ((emit Memset_spi_context w)\<lparr>ctx := zero_context\<lparr>adapter := Some a'\<rparr>\<rparr>))"

section \<open>Notions used in the statements\<close>

text \<open>The receive buffer after the exchange: \<open>B\<close> zero bytes, overwritten by the device.\<close>

definition received :: "nat \<Rightarrow> work_env \<Rightarrow> sk_buff" where
  "received B env = \<lparr>data = store_bytes 0 (take B (spi_rx env)) (replicate B 0)\<rparr>"

fun is_kfree :: "event \<Rightarrow> bool" where
  "is_kfree (Dev_kfree_skb skb) = True"
| "is_kfree _ = False"

text \<open>
  The resources that initialisation acquires, the call that acquires each (when it
  succeeds) and the call that gives it back. \<^verbatim>\<open>spi_busnum_to_master\<close> returns a counted
  reference to the bus controller, which the caller has to put back.
\<close>

datatype resource =
  Workqueue | Spi_master | Spi_device | Handshake_line | Interrupt | Serial_interface | Card
  | Bluetooth

fun acquires :: "event \<Rightarrow> resource option" where
  "acquires (Create_workqueue ok) = (if ok then Some Workqueue else None)"
| "acquires (Spi_busnum_to_master ok) = (if ok then Some Spi_master else None)"
| "acquires (Spi_new_device ok) = (if ok then Some Spi_device else None)"
| "acquires (Gpio_request s) = (if s = 0 then Some Handshake_line else None)"
| "acquires (Request_irq s) = (if s = 0 then Some Interrupt else None)"
| "acquires (Esp_serial_init s) = (if s = 0 then Some Serial_interface else None)"
| "acquires (Esp_add_card s) = (if s = 0 then Some Card else None)"
| "acquires (Esp_init_bt s) = (if s = 0 then Some Bluetooth else None)"
| "acquires _ = None"

fun releases :: "event \<Rightarrow> resource option" where
  "releases Destroy_workqueue = Some Workqueue"
| "releases Spi_master_put = Some Spi_master"
| "releases Spi_unregister_device = Some Spi_device"
| "releases Gpio_free = Some Handshake_line"
| "releases Free_irq = Some Interrupt"
| "releases Esp_serial_cleanup = Some Serial_interface"
| "releases Esp_remove_card = Some Card"
| "releases Esp_deinit_bt = Some Bluetooth"
| "releases _ = None"

text \<open>
  Whether a resource is held after a sequence of calls, none being held before: each call
  in turn may give it back or acquire it.
\<close>

definition hold_step :: "resource \<Rightarrow> bool \<Rightarrow> event \<Rightarrow> bool" where
  "hold_step r h e =
     (if releases e = Some r then False else if acquires e = Some r then True else h)"

definition held_after :: "event list \<Rightarrow> resource \<Rightarrow> bool" where
  "held_after evs r = foldl (hold_step r) False evs"

text \<open>
  The outcome of the steps of initialisation, in order, 0 for success; the error of the
  step that fails first, or 0 when none does.
\<close>

definition init_steps :: "init_env \<Rightarrow> int list" where
  "init_steps env =
     [if create_workqueue_ok env then 0 else - EFAULT,
      if spi_busnum_to_master_ok env then 0 else - ENODEV,
      if spi_new_device_ok env then 0 else - ENODEV,
      spi_setup_status env,
      gpio_request_status env,
      gpio_direction_input_status env,
      request_irq_status env]
     @ (if CONFIG_SUPPORT_ESP_SERIAL env then [esp_serial_init_status env] else [])
     @ [esp_add_card_status env, esp_init_bt_status env]"

definition first_failure :: "int list \<Rightarrow> int" where
  "first_failure ss = (case find (\<lambda>s. s \<noteq> 0) ss of None \<Rightarrow> 0 | Some s \<Rightarrow> s)"

text \<open>
  The calls of \<^verbatim>\<open>spi_exit\<close> on a context whose adapter is \<open>a\<close> and in which no
  activation is queued.
\<close>

definition teardown_calls :: "esp_spi_context \<Rightarrow> esp_adapter \<Rightarrow> event list" where
  "teardown_calls c a =
     (if spi_workqueue c \<noteq> None then [Destroy_workqueue] else [])
     @ [Esp_serial_cleanup, Esp_remove_card]
     @ (if hcidev a then [Esp_deinit_bt] else [])
     @ [Gpio_free]
     @ (if esp_spi_dev c then [Spi_unregister_device] else [])
     @ [Memset_spi_context]"

text \<open>
  Two notions for the proofs about initialisation. A context is ready for a rollback after
  the calls \<open>pre\<close> when no activation is queued, the two resources that \<^verbatim>\<open>spi_exit\<close>
  gives back only on a non-null pointer are recorded in the context if they are held, and
  the Bluetooth interface is not held. A world is rolled back with respect to a trace
  \<open>t0\<close> when its context is zero and the calls made since \<open>t0\<close> contain the unconditional
  calls of the teardown and leave nothing held but the interrupt and the reference to the
  bus controller.
\<close>

definition rollback_ready :: "event list \<Rightarrow> esp_spi_context \<Rightarrow> bool" where
  "rollback_ready pre c =
     (queued_activations c = 0 \<and>
      (held_after pre Workqueue \<longrightarrow> spi_workqueue c \<noteq> None) \<and>
      (held_after pre Spi_device \<longrightarrow> esp_spi_dev c) \<and>
      \<not> held_after pre Bluetooth)"

definition rolled_back :: "event list \<Rightarrow> world \<Rightarrow> bool" where
  "rolled_back t0 w' =
     (ctx w' = zero_context \<and>
      (\<exists>evs. trace w' = t0 @ evs \<and>
             (\<forall>r. held_after evs r \<longrightarrow> r = Interrupt \<or> r = Spi_master) \<and>
             {Esp_serial_cleanup, Esp_remove_card, Gpio_free} \<subseteq> set evs))"

subsection \<open>Example inputs\<close>

definition zero_mem :: "nat \<Rightarrow> u8" where "zero_mem i = 0"
definition stale_mem :: "nat \<Rightarrow> u8" where "stale_mem i = 0xAA"

definition adapter0 :: esp_adapter where
  "adapter0 = \<lparr>if_context = True, if_ops = True, hcidev = False\<rparr>"

definition world0 :: world where
  "world0 = \<lparr>ctx = zero_context, trace = []\<rparr>"

definition alloc_env0 :: alloc_env where
  "alloc_env0 = \<lparr>alloc_ok = True, junk = stale_mem\<rparr>"

definition running_context :: esp_spi_context where
  "running_context =
     \<lparr>adapter = Some adapter0, esp_spi_dev = True, spi_workqueue = Some 0,
      spi_work_pending = False, tx_q = [], rx_q = []\<rparr>"

definition frame_a :: sk_buff where "frame_a = \<lparr>data = [1, 2, 3, 0]\<rparr>"
definition frame_b :: sk_buff where "frame_b = \<lparr>data = [4, 0, 1, 0, 9]\<rparr>"

definition world_queued :: world where
  "world_queued = \<lparr>ctx = running_context\<lparr>tx_q := [frame_a], rx_q := [frame_b]\<rparr>, trace = []\<rparr>"

definition work_env_failed :: work_env where
  "work_env_failed =
     \<lparr>alloc_ok = True, junk = stale_mem, spi_ret = - 5,
      spi_rx = [4, 0, 2, 0, 0xAA, 0xBB, 0, 0]\<rparr>"

text \<open>The same outside for every activation that a teardown completes.\<close>

definition work_envs_failed :: "nat \<Rightarrow> work_env" where
  "work_envs_failed k = work_env_failed"

text \<open>As \<open>world_queued\<close>, with one activation waiting in the work queue.\<close>

definition world_pending :: world where
  "world_pending =
     \<lparr>ctx = running_context\<lparr>spi_workqueue := Some 1, spi_work_pending := True,
                             tx_q := [frame_a], rx_q := [frame_b]\<rparr>,
      trace = []\<rparr>"

text \<open>\<open>world_pending\<close> when the worker has taken that activation and is about to run it.\<close>

definition world_draining :: world where
  "world_draining =
     \<lparr>ctx = running_context\<lparr>tx_q := [frame_a], rx_q := [frame_b]\<rparr>,
      trace = [Destroy_workqueue]\<rparr>"

definition init_env_ok :: init_env where
  "init_env_ok =
     \<lparr>CONFIG_SUPPORT_ESP_SERIAL = True, create_workqueue_ok = True,
      spi_busnum_to_master_ok = True, spi_new_device_ok = True, spi_setup_status = 0,
      gpio_request_status = 0, gpio_direction_input_status = 0, request_irq_status = 0,
      esp_serial_init_status = 0, esp_add_card_status = 0, esp_init_bt_status = 0\<rparr>"

definition init_env_card_fails :: init_env where
  "init_env_card_fails = init_env_ok\<lparr>esp_add_card_status := - 12\<rparr>"

text \<open>The calls of an initialisation in which \<^verbatim>\<open>esp_add_card\<close> fails with \<open>-12\<close>.\<close>

definition card_failure_trace :: "event list" where
  "card_failure_trace =
     [Memset_spi_context, Create_workqueue True, Spi_busnum_to_master True,
      Spi_new_device True, Spi_setup 0, Printk, Gpio_request 0, Gpio_direction_input 0,
      Request_irq 0, Msleep 200, Esp_serial_init 0, Esp_add_card (- 12),
      Destroy_workqueue, Esp_serial_cleanup, Esp_remove_card, Gpio_free,
      Spi_unregister_device, Memset_spi_context, Printk]"

text \<open>The calls of a teardown of \<open>world_queued\<close>.\<close>

definition queued_teardown_trace :: "event list" where
  "queued_teardown_trace =
     [Destroy_workqueue, Esp_serial_cleanup, Esp_remove_card, Gpio_free,
      Spi_unregister_device, Memset_spi_context]"

section \<open>Verification\<close>

subsection \<open>Arithmetic of the padding\<close>

lemma unat_and_3: "unat ((sz::u32) AND 3) = unat sz mod 4"
proof -
  have "(3::u32) = mask 2" by (simp add: mask_eq_exp_minus_1)
  then have "sz AND 3 = take_bit 2 sz" by (simp add: take_bit_eq_mask)
  then show ?thesis by (simp add: unsigned_take_bit_eq take_bit_eq_mod unat_mod)
qed

lemma unat_padded:
  assumes "unat (sz::u32) + 4 < 2 ^ 32"
  shows "unat (sz + (4 - (sz AND 3))) = unat sz + (4 - unat sz mod 4)"
proof -
  have m: "unat sz mod 4 < 4" by simp
  have a: "unat (sz AND 3) = unat sz mod 4" by (rule unat_and_3)
  have le: "sz AND 3 \<le> 4" using a m by (simp add: word_le_nat_alt)
  have b: "unat (4 - (sz AND 3)) = 4 - unat sz mod 4"
    using le a by (simp add: unat_sub)
  have "unat (sz + (4 - (sz AND 3))) = unat sz + unat (4 - (sz AND 3))"
    using assms b by (simp add: unat_add_lem [THEN iffD1])
  then show ?thesis using b by simp
qed

subsection \<open>\<^verbatim>\<open>write_packet\<close>\<close>

lemma store_bytes_whole: "length bs = length d \<Longrightarrow> store_bytes 0 bs d = bs"
  by (simp add: store_bytes_def)

text \<open>The three ways out of \<^verbatim>\<open>write_packet\<close>; it never faults.\<close>

lemma write_packet_cases:
  "write_packet B env ad buf sz w =
     (if invalid_args B ad buf sz then Inr (- EINVAL, emit Printk w)
      else if \<not> alloc_ok env then Inr (- ENOMEM, w)
      else Inr (0, w\<lparr>ctx := (ctx w)\<lparr>tx_q := tx_q (ctx w) @
                 [\<lparr>data = map (the buf) [0..<unat (sz + (4 - (sz AND 3)))]\<rparr>]\<rparr>\<rparr>))"
  by (cases buf; cases ad)
     (auto simp: write_packet_def esp_alloc_skb_def skb_put_def memcpy_def invalid_args_def
      store_bytes_whole skb_queue_tail_def Let_def)

text \<open>
  C2. Whenever \<^verbatim>\<open>write_packet\<close> accepts a payload of \<open>S\<close> bytes (it returns 0), the frame
  it appends to the transmit queue is exactly \<open>S + (4 - S mod 4)\<close> bytes long; when \<open>S\<close>
  is a multiple of 4 that is \<open>S + 4\<close>, not \<open>S\<close>. The buffer size is assumed to leave room
  for the padding in a \<^verbatim>\<open>u32\<close>.
\<close>

theorem write_packet_padding:
  assumes "write_packet B env ad buf sz w = Inr (0, w')" and "B + 4 < 2 ^ 32"
  shows "\<exists>skb. tx_q (ctx w') = tx_q (ctx w) @ [skb] \<and>
               length (data skb) = unat sz + (4 - unat sz mod 4) \<and>
               (unat sz mod 4 = 0 \<longrightarrow> length (data skb) = unat sz + 4)"
proof -
  from assms(1) have ok: "\<not> invalid_args B ad buf sz" and al: "alloc_ok env"
    by (auto simp: write_packet_cases EINVAL_def ENOMEM_def split: if_splits)
  from ok have "unat sz \<le> B" by (auto simp: invalid_args_def split: option.splits)
  with assms(2) have pad: "unat (sz + (4 - (sz AND 3))) = unat sz + (4 - unat sz mod 4)"
    by (intro unat_padded) simp
  from assms(1) ok al have "w' = w\<lparr>ctx := (ctx w)\<lparr>tx_q := tx_q (ctx w) @
                 [\<lparr>data = map (the buf) [0..<unat (sz + (4 - (sz AND 3)))]\<rparr>]\<rparr>\<rparr>"
    by (simp add: write_packet_cases)
  then show ?thesis using pad by simp
qed

theorem write_packet_padding_witness:
  "\<exists>w'. write_packet 1600 alloc_env0 (Some adapter0) (Some zero_mem) 8 world0 = Inr (0, w') \<and>
        (\<exists>skb. tx_q (ctx w') = tx_q (ctx world0) @ [skb] \<and> length (data skb) = 12)"
proof -
  obtain w' where run:
    "write_packet 1600 alloc_env0 (Some adapter0) (Some zero_mem) 8 world0 = Inr (0, w')"
    by (simp add: write_packet_cases invalid_args_def adapter0_def alloc_env0_def)
  have "(1600::nat) + 4 < 2 ^ 32" by simp
  from write_packet_padding [OF run this] run show ?thesis by simp
qed

text \<open>
  C3, as the claim states it, fails: a payload of exactly \<^verbatim>\<open>SPI_BUF_SIZE\<close> bytes (here
  1600) is accepted although its padded size, 1604, exceeds the buffer size.
\<close>

theorem write_packet_accepts_padded_oversize:
  "map_sum id fst (write_packet 1600 alloc_env0 (Some adapter0) (Some zero_mem) 1600 world0)
     = Inr 0
   \<and> 1600 < unat (1600::u32) + (4 - unat (1600::u32) mod 4)"
  by (simp add: write_packet_cases invalid_args_def adapter0_def alloc_env0_def)

text \<open>
  C3, amended. Called with an adapter that has an interface context and with a buffer,
  \<^verbatim>\<open>write_packet\<close> returns \<^verbatim>\<open>-EINVAL\<close> exactly when the payload size is zero or the
  size before padding exceeds \<^verbatim>\<open>SPI_BUF_SIZE\<close>; so it does not return \<^verbatim>\<open>-EINVAL\<close>
  for a payload that is not empty and whose padded size fits.
\<close>

theorem write_packet_einval_iff:
  assumes "if_context a"
  shows "((\<exists>w'. write_packet B env (Some a) (Some src) sz w = Inr (- EINVAL, w'))
            \<longleftrightarrow> (sz = 0 \<or> B < unat sz))
         \<and> (sz \<noteq> 0 \<and> unat sz + (4 - unat sz mod 4) \<le> B \<longrightarrow>
              (\<forall>w'. write_packet B env (Some a) (Some src) sz w \<noteq> Inr (- EINVAL, w')))"
  using assms
  by (auto simp: write_packet_cases invalid_args_def EINVAL_def ENOMEM_def)

theorem write_packet_einval_iff_witness:
  "(\<exists>w'. write_packet 1600 alloc_env0 (Some adapter0) (Some zero_mem) 1601 world0
           = Inr (- EINVAL, w'))
   \<and> (\<forall>w'. write_packet 1600 alloc_env0 (Some adapter0) (Some zero_mem) 1596 world0
           \<noteq> Inr (- EINVAL, w'))"
proof -
  have a: "if_context adapter0" by (simp add: adapter0_def)
  from write_packet_einval_iff [OF a, of 1600 alloc_env0 zero_mem 1601 world0]
    write_packet_einval_iff [OF a, of 1600 alloc_env0 zero_mem 1596 world0]
  show ?thesis by simp
qed

text \<open>
  C10 fails on the code: \<^verbatim>\<open>memcpy\<close> is called with the padded size. For a payload of one
  byte the frame that is queued holds the caller's byte followed by the three bytes of
  memory that lie behind it.
\<close>

theorem write_packet_reads_past_payload:
  "write_packet (Suc B) \<lparr>alloc_ok = True, junk = j\<rparr>
      (Some \<lparr>if_context = True, if_ops = ops, hcidev = h\<rparr>) (Some mem) 1 w
   = Inr (0, w\<lparr>ctx := (ctx w)\<lparr>tx_q := tx_q (ctx w) @
               [\<lparr>data = [mem 0, mem 1, mem 2, mem 3]\<rparr>]\<rparr>\<rparr>)"
proof -
  have u: "[0..<4] = [0, 1, 2, 3::nat]" by code_simp
  show ?thesis by (simp add: write_packet_cases invalid_args_def u)
qed

subsection \<open>\<^verbatim>\<open>process_rx_buf\<close>\<close>

text \<open>
  What \<^verbatim>\<open>process_rx_buf\<close> does on a buffer that holds a whole header: the size test is
  made on the sum modulo \<open>2 ^ 16\<close>.
\<close>

lemma process_rx_buf_cases:
  assumes "4 \<le> length (data skb)"
  shows "process_rx_buf B (Some skb) w =
       (let off = (word_of_nat (unat (data skb ! 0) + 256 * unat (data skb ! 1)) :: u16);
            l = (word_of_nat (unat (data skb ! 2) + 256 * unat (data skb ! 3)) :: u16)
        in if unat off \<noteq> 4 \<or> l = 0 \<or> B < (unat l + 4) mod 65536 then Inr (- EINVAL, w)
           else Inr (0, emit Esp_process_new_packet_intr
                  (w\<lparr>ctx := (ctx w)\<lparr>rx_q := rx_q (ctx w) @
                       [skb_trim skb ((unat l + 4) mod 65536)]\<rparr>\<rparr>)))"
proof -
  have "(3::nat) = Suc 2" by simp
  then show ?thesis using assms
    by (simp add: process_rx_buf_def le16_at_def offset_field_def len_field_def
        sizeof_esp_payload_header_def skb_queue_tail_def unat_word_ariths Let_def)
qed

text \<open>
  C1 fails on the code: a header with the right offset and the length \<open>0xFFFC\<close> is accepted
  whatever the buffer size is, since \<open>0xFFFC + 4\<close> is 0 in a \<^verbatim>\<open>u16\<close>; the buffer is cut
  to no bytes at all, queued, and announced.
\<close>

theorem process_rx_buf_length_wraps:
  "process_rx_buf B (Some \<lparr>data = [4, 0, 0xFC, 0xFF] @ rest\<rparr>) w
   = Inr (0, emit Esp_process_new_packet_intr
               (w\<lparr>ctx := (ctx w)\<lparr>rx_q := rx_q (ctx w) @ [\<lparr>data = []\<rparr>]\<rparr>\<rparr>))"
  by (simp add: process_rx_buf_def le16_at_def offset_field_def len_field_def
      sizeof_esp_payload_header_def skb_trim_def skb_queue_tail_def)

subsection \<open>\<^verbatim>\<open>esp_spi_work\<close>\<close>

text \<open>
  C9 fails on the code: when \<^verbatim>\<open>esp_alloc_skb\<close> returns NULL the activation passes the
  NULL pointer to \<^verbatim>\<open>skb_put\<close>, which dereferences it.
\<close>

theorem esp_spi_work_alloc_failure_faults:
  "esp_spi_work B (env\<lparr>alloc_ok := False\<rparr>) w = Inl NullPointerDereference"
  by (simp add: esp_spi_work_def esp_alloc_skb_def skb_put_def split: prod.splits)

lemma length_store_received [simp]:
  "length (store_bytes 0 (take n bs) (replicate n c)) = n"
  by (simp add: store_bytes_def)

text \<open>
  C4 fails on the code, by the same missing NULL test: in an activation whose receive
  buffer cannot be allocated the frame at the head of the transmit queue has been taken
  off the queue when \<^verbatim>\<open>skb_put\<close> dereferences the NULL buffer; the activation ends
  there, with no exchange, no decoding and no release of that frame.
\<close>

theorem esp_spi_work_fault_keeps_dequeued_frame:
  "esp_spi_work B (env\<lparr>alloc_ok := False\<rparr>) world_queued = Inl NullPointerDereference
   \<and> fst (skb_dequeue (tx_q (ctx world_queued))) = Some frame_a"
  by (simp add: esp_spi_work_def esp_alloc_skb_def skb_put_def skb_dequeue_def
      world_queued_def split: prod.splits)

text \<open>
  When the receive buffer was allocated (and the buffer size holds a header) an
  activation completes. It takes at most one frame off the transmit
  queue; it makes exactly one transfer, of \<^verbatim>\<open>SPI_BUF_SIZE\<close> bytes into a zero-filled
  buffer; a failed transfer adds a log line and nothing else; the received buffer goes
  through \<^verbatim>\<open>process_rx_buf\<close> whatever the transfer returned, and its verdict alone
  decides between queueing with a notification and freeing; the frame taken off the
  transmit queue is freed last, always.
\<close>

lemma esp_spi_work_allocated:
  assumes "alloc_ok env" and "4 \<le> B"
  shows "\<exists>w' r wd.
      esp_spi_work B env w = Inr w' \<and>
      process_rx_buf B (Some (received B env)) w = Inr (r, wd) \<and>
      ctx w' = (ctx wd)\<lparr>tx_q := drop 1 (tx_q (ctx w))\<rparr> \<and>
      trace w' = trace w @
        [Spi_sync_transfer (case tx_q (ctx w) of [] \<Rightarrow> None | t # _ \<Rightarrow> Some (data t))
           (replicate B 0) B]
        @ (if spi_ret env \<noteq> 0 then [Printk] else [])
        @ (if r = 0 then [Esp_process_new_packet_intr] else [Dev_kfree_skb (received B env)])
        @ (case tx_q (ctx w) of [] \<Rightarrow> [] | t # _ \<Rightarrow> [Dev_kfree_skb t])"
  using assms
  by (cases "tx_q (ctx w)")
     (simp_all add: esp_spi_work_def esp_alloc_skb_def skb_put_def skb_dequeue_def memset_def
      store_bytes_whole received_def process_rx_buf_cases Let_def new_events_def emit_def
      EINVAL_def)

lemma esp_spi_work_allocated_example:
  "esp_spi_work 8 work_env_failed world_queued =
     Inr \<lparr>ctx = running_context\<lparr>rx_q := [frame_b, \<lparr>data = [4, 0, 2, 0, 0xAA, 0xBB]\<rparr>]\<rparr>,
          trace = [Spi_sync_transfer (Some [1, 2, 3, 0]) (replicate 8 0) 8, Printk,
                   Esp_process_new_packet_intr, Dev_kfree_skb frame_a]\<rparr>"
proof -
  have a: "alloc_ok work_env_failed" by (simp add: work_env_failed_def)
  have b: "(4::nat) \<le> 8" by simp
  have rx: "received 8 work_env_failed = \<lparr>data = [4, 0, 2, 0, 0xAA, 0xBB, 0, 0]\<rparr>"
    by (simp add: received_def work_env_failed_def store_bytes_def)
  have p: "process_rx_buf 8 (Some \<lparr>data = [4, 0, 2, 0, 0xAA, 0xBB, 0, 0]\<rparr>) world_queued
     = Inr (0, \<lparr>ctx = running_context\<lparr>tx_q := [frame_a],
                      rx_q := [frame_b, \<lparr>data = [4, 0, 2, 0, 0xAA, 0xBB]\<rparr>]\<rparr>,
                trace = [Esp_process_new_packet_intr]\<rparr>)"
    by (simp add: process_rx_buf_cases world_queued_def skb_trim_def emit_def)
  from esp_spi_work_allocated [OF a b, of world_queued]
  obtain w' r wd where
    "esp_spi_work 8 work_env_failed world_queued = Inr w'"
    "process_rx_buf 8 (Some (received 8 work_env_failed)) world_queued = Inr (r, wd)"
    "ctx w' = (ctx wd)\<lparr>tx_q := drop 1 (tx_q (ctx world_queued))\<rparr>"
    "trace w' = trace world_queued @
        [Spi_sync_transfer
           (case tx_q (ctx world_queued) of [] \<Rightarrow> None | t # _ \<Rightarrow> Some (data t))
           (replicate 8 0) 8]
        @ (if spi_ret work_env_failed \<noteq> 0 then [Printk] else [])
        @ (if r = 0 then [Esp_process_new_packet_intr]
           else [Dev_kfree_skb (received 8 work_env_failed)])
        @ (case tx_q (ctx world_queued) of [] \<Rightarrow> [] | t # _ \<Rightarrow> [Dev_kfree_skb t])"
    by blast
  then show ?thesis using rx p
    by (cases w')
       (auto simp: world_queued_def new_events_def work_env_failed_def frame_a_def
        running_context_def)
qed

subsection \<open>\<^verbatim>\<open>spi_interrupt_handler\<close>\<close>

lemma queue_work_result:
  assumes "spi_workqueue c = Some n" and "wq_consistent c"
  shows "snd (queue_work c) = c\<lparr>spi_workqueue := Some 1, spi_work_pending := True\<rparr>"
  using assms by (cases c) (simp add: queue_work_def wq_consistent_def)

lemma handler_step:
  assumes "spi_workqueue (ctx w) \<noteq> None" and "wq_consistent (ctx w)"
  shows "snd (spi_interrupt_handler w) =
           w\<lparr>ctx := (ctx w)\<lparr>spi_workqueue := Some 1, spi_work_pending := True\<rparr>\<rparr>"
proof -
  from assms(1) obtain n where "spi_workqueue (ctx w) = Some n" by blast
  from queue_work_result [OF this assms(2)] assms(1) show ?thesis
    by (simp add: spi_interrupt_handler_def)
qed

lemma edges_Suc:
  assumes "spi_workqueue (ctx w) \<noteq> None" and "wq_consistent (ctx w)"
  shows "edges (Suc n) w = w\<lparr>ctx := (ctx w)\<lparr>spi_workqueue := Some 1, spi_work_pending := True\<rparr>\<rparr>"
  using assms
proof (induction n arbitrary: w)
  case 0
  then show ?case by (simp add: handler_step)
next
  case (Suc n)
  let ?w1 = "w\<lparr>ctx := (ctx w)\<lparr>spi_workqueue := Some 1, spi_work_pending := True\<rparr>\<rparr>"
  have s: "snd (spi_interrupt_handler w) = ?w1" using Suc.prems by (rule handler_step)
  have "edges (Suc (Suc n)) w = edges (Suc n) ?w1" using s by simp
  also have "\<dots> = ?w1\<lparr>ctx := (ctx ?w1)\<lparr>spi_workqueue := Some 1, spi_work_pending := True\<rparr>\<rparr>"
    by (rule Suc.IH) (simp_all add: wq_consistent_def)
  finally show ?case by simp
qed

text \<open>
  C5. While the work queue exists and the pending bit agrees with the queue (an activation
  waits, or one runs and none waits), any number \<open>n\<close> of readiness edges leaves at most one
  activation queued and at most one more than before; none that was queued is lost, and
  after at least one edge exactly one is queued. The handler makes no call at all: the
  trace, both frame queues, the device and the adapter are unchanged.
\<close>

theorem readiness_coalescing:
  assumes "spi_workqueue (ctx w) \<noteq> None" and "wq_consistent (ctx w)"
  shows "queued_activations (ctx (edges n w)) \<le> queued_activations (ctx w) + 1
       \<and> queued_activations (ctx (edges n w)) \<le> 1
       \<and> queued_activations (ctx w) \<le> queued_activations (ctx (edges n w))
       \<and> (0 < n \<longrightarrow> queued_activations (ctx (edges n w)) = 1)
       \<and> wq_consistent (ctx (edges n w))
       \<and> trace (edges n w) = trace w
       \<and> tx_q (ctx (edges n w)) = tx_q (ctx w)
       \<and> rx_q (ctx (edges n w)) = rx_q (ctx w)
       \<and> esp_spi_dev (ctx (edges n w)) = esp_spi_dev (ctx w)
       \<and> adapter (ctx (edges n w)) = adapter (ctx w)"
proof (cases n)
  case 0
  then show ?thesis using assms
    by (auto simp: queued_activations_def wq_consistent_def split: option.splits)
next
  case (Suc m)
  then show ?thesis using assms
    by (auto simp: edges_Suc queued_activations_def wq_consistent_def split: option.splits simp del: edges.simps)
qed

theorem readiness_coalescing_witness:
  "queued_activations (ctx (edges 5 \<lparr>ctx = running_context, trace = []\<rparr>)) = 1
   \<and> trace (edges 5 \<lparr>ctx = running_context, trace = []\<rparr>) = []"
proof -
  have a: "spi_workqueue (ctx \<lparr>ctx = running_context, trace = []\<rparr>) \<noteq> None"
    by (simp add: running_context_def)
  have b: "wq_consistent (ctx \<lparr>ctx = running_context, trace = []\<rparr>)"
    by (simp add: running_context_def wq_consistent_def)
  from readiness_coalescing [OF a b, of 5] show ?thesis by simp
qed

subsection \<open>\<^verbatim>\<open>spi_exit\<close>\<close>

lemma ctx_emit [simp]: "ctx (emit e w) = ctx w"
  by (simp add: emit_def)

lemma trace_emit [simp]: "trace (emit e w) = trace w @ [e]"
  by (simp add: emit_def)

lemma world_ctx_update: "(w::world)\<lparr>ctx := c\<rparr> = \<lparr>ctx = c, trace = trace w\<rparr>"
  by (cases w) simp

lemma destroy_workqueue_idle:
  assumes "queued_activations (ctx w) = 0"
  shows "destroy_workqueue B envs w = Inr (emit Destroy_workqueue w)"
  using assms by (simp add: destroy_workqueue_def)

text \<open>The two ways out of \<^verbatim>\<open>spi_exit\<close> when no activation is queued.\<close>

lemma spi_exit_cases:
  assumes "queued_activations (ctx w) = 0"
  shows "spi_exit B envs w =
     (case adapter (ctx w) of
        None \<Rightarrow> Inl NullPointerDereference
      | Some a \<Rightarrow> Inr \<lparr>ctx = zero_context, trace = trace w @ teardown_calls (ctx w) a\<rparr>)"
proof (cases "adapter (ctx w)")
  case None
  then show ?thesis
    by (simp add: spi_exit_def destroy_workqueue_idle [OF assms] Let_def)
next
  case (Some a)
  then show ?thesis
    by (simp add: spi_exit_def destroy_workqueue_idle [OF assms] Let_def teardown_calls_def
        world_ctx_update)
qed

text \<open>
  C6 fails on the code: on the zeroed context that a completed teardown leaves behind,
  \<^verbatim>\<open>spi_exit\<close> reads \<^verbatim>\<open>spi_context.adapter->hcidev\<close> through the NULL adapter pointer.
\<close>

theorem spi_exit_twice_faults:
  "spi_exit B envs (w\<lparr>ctx := zero_context\<rparr>) = Inl NullPointerDereference"
  by (simp add: spi_exit_cases queued_activations_def zero_context_def)

lemma spi_exit_zeroes: "spi_exit B envs w = Inr w' \<Longrightarrow> ctx w' = zero_context"
  unfolding spi_exit_def Let_def
  by (cases "if spi_workqueue (ctx w) \<noteq> None then destroy_workqueue B envs w else Inr w")
     (auto split: option.splits)

lemma spi_exit_second_call:
  assumes "spi_exit B envs w = Inr w'"
  shows "spi_exit B' envs' w' = Inl NullPointerDereference"
proof -
  have "ctx w' = zero_context" using assms by (rule spi_exit_zeroes)
  then show ?thesis
    by (simp add: spi_exit_cases queued_activations_def zero_context_def)
qed

text \<open>
  C7 fails on the code: the teardown of a running context with one frame in each queue
  (and no activation waiting) destroys the work queue first and ends with the
  \<^verbatim>\<open>memset\<close>, but it frees no buffer; the two frames are left allocated, and after the
  \<^verbatim>\<open>memset\<close> nothing points to them.
\<close>

theorem spi_exit_leaks_queued_buffers:
  "spi_exit B envs world_queued =
     Inr \<lparr>ctx = zero_context, trace = queued_teardown_trace\<rparr>
   \<and> filter is_kfree queued_teardown_trace = []
   \<and> tx_q (ctx world_queued) = [frame_a] \<and> rx_q (ctx world_queued) = [frame_b]"
  by (simp add: spi_exit_cases queued_activations_def world_queued_def running_context_def
      teardown_calls_def adapter0_def queued_teardown_trace_def)

text \<open>
  With an activation waiting, \<^verbatim>\<open>destroy_workqueue\<close> completes it first: the frame at
  the head of the transmit queue is sent and freed by \<^verbatim>\<open>esp_spi_work\<close>. The frames in
  the receive queue (here the one that was there and the one just received) are still not
  freed by the teardown.
\<close>

lemma pending_activation:
  "esp_spi_work 8 work_env_failed world_draining
   = Inr \<lparr>ctx = running_context\<lparr>rx_q := [frame_b, \<lparr>data = [4, 0, 2, 0, 0xAA, 0xBB]\<rparr>]\<rparr>,
          trace = [Destroy_workqueue,
                   Spi_sync_transfer (Some [1, 2, 3, 0]) (replicate 8 0) 8,
                   Printk, Esp_process_new_packet_intr, Dev_kfree_skb frame_a]\<rparr>"
proof -
  have a: "alloc_ok work_env_failed" by (simp add: work_env_failed_def)
  have b: "(4::nat) \<le> 8" by simp
  have rx: "received 8 work_env_failed = \<lparr>data = [4, 0, 2, 0, 0xAA, 0xBB, 0, 0]\<rparr>"
    by (simp add: received_def work_env_failed_def store_bytes_def)
  have p: "process_rx_buf 8 (Some \<lparr>data = [4, 0, 2, 0, 0xAA, 0xBB, 0, 0]\<rparr>) world_draining
     = Inr (0, \<lparr>ctx = running_context\<lparr>tx_q := [frame_a],
                      rx_q := [frame_b, \<lparr>data = [4, 0, 2, 0, 0xAA, 0xBB]\<rparr>]\<rparr>,
                trace = [Destroy_workqueue, Esp_process_new_packet_intr]\<rparr>)"
    by (simp add: process_rx_buf_cases world_draining_def skb_trim_def emit_def)
  from esp_spi_work_allocated [OF a b, of world_draining]
  obtain w' r wd where
    "esp_spi_work 8 work_env_failed world_draining = Inr w'"
    "process_rx_buf 8 (Some (received 8 work_env_failed)) world_draining = Inr (r, wd)"
    "ctx w' = (ctx wd)\<lparr>tx_q := drop 1 (tx_q (ctx world_draining))\<rparr>"
    "trace w' = trace world_draining @
        [Spi_sync_transfer
           (case tx_q (ctx world_draining) of [] \<Rightarrow> None | t # _ \<Rightarrow> Some (data t))
           (replicate 8 0) 8]
        @ (if spi_ret work_env_failed \<noteq> 0 then [Printk] else [])
        @ (if r = 0 then [Esp_process_new_packet_intr]
           else [Dev_kfree_skb (received 8 work_env_failed)])
        @ (case tx_q (ctx world_draining) of [] \<Rightarrow> [] | t # _ \<Rightarrow> [Dev_kfree_skb t])"
    by blast
  then show ?thesis using rx p
    by (cases w')
       (auto simp: world_draining_def new_events_def work_env_failed_def frame_a_def
        running_context_def)
qed

lemma spi_exit_completes_pending_work:
  "spi_exit 8 work_envs_failed world_pending =
     Inr \<lparr>ctx = zero_context,
          trace = [Destroy_workqueue,
                   Spi_sync_transfer (Some [1, 2, 3, 0]) (replicate 8 0) 8, Printk,
                   Esp_process_new_packet_intr, Dev_kfree_skb frame_a,
                   Esp_serial_cleanup, Esp_remove_card, Gpio_free, Spi_unregister_device,
                   Memset_spi_context]\<rparr>"
proof -
  have one: "queued_activations (ctx world_pending) = Suc 0"
    by (simp add: world_pending_def running_context_def queued_activations_def)
  have w: "(emit Destroy_workqueue world_pending)
              \<lparr>ctx := (ctx (emit Destroy_workqueue world_pending))
                        \<lparr>spi_workqueue := Some 0, spi_work_pending := False\<rparr>\<rparr> = world_draining"
    by (simp add: world_pending_def world_draining_def running_context_def emit_def)
  have d: "destroy_workqueue 8 work_envs_failed world_pending =
             Inr \<lparr>ctx = running_context\<lparr>rx_q := [frame_b, \<lparr>data = [4, 0, 2, 0, 0xAA, 0xBB]\<rparr>]\<rparr>,
          trace = [Destroy_workqueue,
                   Spi_sync_transfer (Some [1, 2, 3, 0]) (replicate 8 0) 8,
                   Printk, Esp_process_new_packet_intr, Dev_kfree_skb frame_a]\<rparr>"
    unfolding destroy_workqueue_def one run_pending.simps w
    by (simp add: work_envs_failed_def pending_activation)
  have q: "spi_workqueue (ctx world_pending) \<noteq> None"
    by (simp add: world_pending_def running_context_def)
  show ?thesis
    unfolding spi_exit_def using q
    by (simp add: d running_context_def adapter0_def Let_def emit_def)
qed

subsection \<open>\<^verbatim>\<open>spi_init\<close> and \<^verbatim>\<open>esp_init_interface_layer\<close>\<close>

lemma first_failure_simps [simp]:
  "first_failure [] = 0"
  "first_failure (s # ss) = (if s \<noteq> 0 then s else first_failure ss)"
  by (simp_all add: first_failure_def)

lemma held_after_append:
  "held_after (xs @ ys) r = foldl (hold_step r) (held_after xs r) ys"
  by (simp add: held_after_def)

text \<open>
  After the teardown nothing is held but, possibly, the interrupt and the reference to the
  bus controller.
\<close>

lemma held_after_teardown:
  assumes "rollback_ready pre c" and "post = [] \<or> post = [Printk]"
  shows "held_after (pre @ teardown_calls c a @ post) r \<longrightarrow> r = Interrupt \<or> r = Spi_master"
  using assms
  by (cases r) (auto simp: held_after_append teardown_calls_def rollback_ready_def hold_step_def)

lemma teardown_calls_unconditional:
  "{Esp_serial_cleanup, Esp_remove_card, Gpio_free} \<subseteq> set (pre @ teardown_calls c a @ post)"
  by (simp add: teardown_calls_def)

lemma rollback_after:
  assumes "trace w = t0 @ pre" and "adapter (ctx w) = Some a" and "rollback_ready pre (ctx w)"
  shows "\<exists>w'. rollback B envs code w = Inr (code, w') \<and> rolled_back t0 w'"
proof -
  let ?w' = "\<lparr>ctx = zero_context, trace = trace w @ teardown_calls (ctx w) a\<rparr>"
  have "rollback B envs code w = Inr (code, ?w')"
    using assms(2,3) by (simp add: rollback_def spi_exit_cases rollback_ready_def)
  moreover have "rolled_back t0 ?w'"
    unfolding rolled_back_def
    using held_after_teardown [OF assms(3), of "[]" a]
      teardown_calls_unconditional [of pre "ctx w" a "[]"] assms(1)
    by (intro conjI exI [of _ "pre @ teardown_calls (ctx w) a"]) simp_all
  ultimately show ?thesis by blast
qed

lemma rollback_log_after:
  assumes "trace w = t0 @ pre" and "adapter (ctx w) = Some a" and "rollback_ready pre (ctx w)"
  shows "\<exists>w'. rollback_log B envs code w = Inr (code, w') \<and> rolled_back t0 w'"
proof -
  let ?w' = "\<lparr>ctx = zero_context, trace = trace w @ teardown_calls (ctx w) a @ [Printk]\<rparr>"
  have "rollback_log B envs code w = Inr (code, ?w')"
    using assms(2,3) by (simp add: rollback_log_def spi_exit_cases rollback_ready_def emit_def)
  moreover have "rolled_back t0 ?w'"
    unfolding rolled_back_def
    using held_after_teardown [OF assms(3), of "[Printk]" a]
      teardown_calls_unconditional [of pre "ctx w" a "[Printk]"] assms(1)
    by (intro conjI exI [of _ "pre @ teardown_calls (ctx w) a @ [Printk]"]) simp_all
  ultimately show ?thesis by blast
qed

lemma rollback_ready_snoc:
  assumes "rollback_ready pre c"
    and "acquires e \<notin> {Some Workqueue, Some Spi_device, Some Bluetooth}"
  shows "rollback_ready (pre @ [e]) c"
  using assms by (auto simp: rollback_ready_def held_after_append hold_step_def)

text \<open>
  The three parts of \<^verbatim>\<open>spi_init\<close>, last first: each returns the error of its first
  failing step, and has rolled back when there is one.
\<close>

lemma spi_init_cards_result:
  assumes "trace w = t0 @ pre" and "adapter (ctx w) = Some a" and "rollback_ready pre (ctx w)"
  shows "\<exists>w'. spi_init_cards B envs env w =
            Inr (first_failure [esp_add_card_status env, esp_init_bt_status env], w')
          \<and> (first_failure [esp_add_card_status env, esp_init_bt_status env] \<noteq> 0 \<longrightarrow>
               rolled_back t0 w')"
proof -
  let ?e = "Esp_add_card (esp_add_card_status env)"
  let ?f = "Esp_init_bt (esp_init_bt_status env)"
  have r1: "rollback_ready (pre @ [?e]) (ctx w)"
    using assms(3) by (rule rollback_ready_snoc) simp
  have r2: "esp_init_bt_status env \<noteq> 0 \<Longrightarrow> rollback_ready ((pre @ [?e]) @ [?f]) (ctx w)"
    using r1 by (rule rollback_ready_snoc) simp
  have t1: "trace (emit ?e w) = t0 @ pre @ [?e]" using assms(1) by simp
  have t2: "trace (emit ?f (emit ?e w)) = t0 @ (pre @ [?e]) @ [?f]" using assms(1) by simp
  show ?thesis
  proof (cases "esp_add_card_status env \<noteq> 0")
    case True
    from rollback_log_after [OF t1 _ _, of a B envs "esp_add_card_status env"] assms(2) r1
    show ?thesis using True by (simp add: spi_init_cards_def Let_def)
  next
    case False
    show ?thesis
    proof (cases "esp_init_bt_status env \<noteq> 0")
      case True
      from rollback_log_after [OF t2 _ _, of a B envs "esp_init_bt_status env"] assms(2) r2 [OF True]
      show ?thesis using True False by (simp add: spi_init_cards_def Let_def)
    next
      case f2: False
      then show ?thesis using False by (simp add: spi_init_cards_def Let_def)
    qed
  qed
qed

lemma rollback_ready_append:
  assumes "rollback_ready pre c"
    and "\<forall>e \<in> set es. acquires e \<notin> {Some Workqueue, Some Spi_device, Some Bluetooth}"
  shows "rollback_ready (pre @ es) c"
  using assms(2)
proof (induction es rule: rev_induct)
  case Nil
  then show ?case using assms(1) by simp
next
  case (snoc e es)
  then have "rollback_ready ((pre @ es) @ [e]) c"
    by (intro rollback_ready_snoc) simp_all
  then show ?case by simp
qed

lemma spi_init_lines_result:
  assumes "trace w = t0 @ pre" and "adapter (ctx w) = Some a" and "rollback_ready pre (ctx w)"
  shows "\<exists>w'. spi_init_lines B envs env w =
            Inr (first_failure
                   ([gpio_request_status env, gpio_direction_input_status env,
                     request_irq_status env]
                    @ (if CONFIG_SUPPORT_ESP_SERIAL env then [esp_serial_init_status env] else [])
                    @ [esp_add_card_status env, esp_init_bt_status env]), w')
          \<and> (first_failure
                   ([gpio_request_status env, gpio_direction_input_status env,
                     request_irq_status env]
                    @ (if CONFIG_SUPPORT_ESP_SERIAL env then [esp_serial_init_status env] else [])
                    @ [esp_add_card_status env, esp_init_bt_status env]) \<noteq> 0 \<longrightarrow>
               rolled_back t0 w')"
proof -
  let ?e1 = "Gpio_request (gpio_request_status env)"
  let ?e2 = "Gpio_direction_input (gpio_direction_input_status env)"
  let ?e3 = "Request_irq (request_irq_status env)"
  let ?e5 = "Esp_serial_init (esp_serial_init_status env)"
  have R: "\<And>es. \<forall>e \<in> set es. acquires e \<notin> {Some Workqueue, Some Spi_device, Some Bluetooth}
             \<Longrightarrow> rollback_ready (pre @ es) (ctx w)"
    using assms(3) by (rule rollback_ready_append)
  consider (f1) "gpio_request_status env \<noteq> 0"
    | (f2) "gpio_request_status env = 0" "gpio_direction_input_status env \<noteq> 0"
    | (f3) "gpio_request_status env = 0" "gpio_direction_input_status env = 0"
           "request_irq_status env \<noteq> 0"
    | (f5) "gpio_request_status env = 0" "gpio_direction_input_status env = 0"
           "request_irq_status env = 0" "CONFIG_SUPPORT_ESP_SERIAL env"
           "esp_serial_init_status env \<noteq> 0"
    | (serial) "gpio_request_status env = 0" "gpio_direction_input_status env = 0"
           "request_irq_status env = 0" "CONFIG_SUPPORT_ESP_SERIAL env"
           "esp_serial_init_status env = 0"
    | (plain) "gpio_request_status env = 0" "gpio_direction_input_status env = 0"
           "request_irq_status env = 0" "\<not> CONFIG_SUPPORT_ESP_SERIAL env"
    by blast
  then show ?thesis
  proof cases
    case f1
    from rollback_after [of "emit Printk (emit ?e1 w)" t0
        "pre @ [?e1, Printk]" a B envs "gpio_request_status env"] R [of "[?e1, Printk]"] assms(1,2) f1
    show ?thesis by (simp add: spi_init_lines_def Let_def)
  next
    case f2
    from rollback_after [of "emit Printk (emit ?e2 (emit ?e1 w))" t0
        "pre @ [?e1, ?e2, Printk]" a B envs "gpio_direction_input_status env"] R [of "[?e1, ?e2, Printk]"] assms(1,2) f2
    show ?thesis by (simp add: spi_init_lines_def Let_def)
  next
    case f3
    from rollback_after [of "emit Printk (emit ?e3 (emit ?e2 (emit ?e1 w)))" t0
        "pre @ [?e1, ?e2, ?e3, Printk]" a B envs "request_irq_status env"]
      R [of "[?e1, ?e2, ?e3, Printk]"] assms(1,2) f3
    show ?thesis by (simp add: spi_init_lines_def Let_def)
  next
    case f5
    from rollback_log_after [of "emit ?e5 (emit (Msleep 200) (emit ?e3 (emit ?e2 (emit ?e1 w))))"
        t0 "pre @ [?e1, ?e2, ?e3, Msleep 200, ?e5]" a B envs "esp_serial_init_status env"]
      R [of "[?e1, ?e2, ?e3, Msleep 200, ?e5]"] assms(1,2) f5
    show ?thesis by (simp add: spi_init_lines_def Let_def)
  next
    case serial
    from spi_init_cards_result [of "emit ?e5 (emit (Msleep 200) (emit ?e3 (emit ?e2 (emit ?e1 w))))"
        t0 "pre @ [?e1, ?e2, ?e3, Msleep 200, ?e5]" a B envs env]
      R [of "[?e1, ?e2, ?e3, Msleep 200, ?e5]"] assms(1,2) serial
    show ?thesis by (simp add: spi_init_lines_def Let_def)
  next
    case plain
    from spi_init_cards_result [of "emit (Msleep 200) (emit ?e3 (emit ?e2 (emit ?e1 w)))"
        t0 "pre @ [?e1, ?e2, ?e3, Msleep 200]" a B envs env]
      R [of "[?e1, ?e2, ?e3, Msleep 200]"] assms(1,2) plain
    show ?thesis by (simp add: spi_init_lines_def Let_def)
  qed
qed

lemma spi_init_result:
  assumes "adapter (ctx w) = Some a"
  shows "\<exists>w'. spi_init B envs env w = Inr (first_failure (init_steps env), w')
          \<and> (first_failure (init_steps env) \<noteq> 0 \<longrightarrow> rolled_back (trace w) w')"
proof -
  let ?c = "Create_workqueue (create_workqueue_ok env)"
  let ?m = "Spi_busnum_to_master (spi_busnum_to_master_ok env)"
  let ?d = "Spi_new_device (spi_new_device_ok env)"
  let ?s = "Spi_setup (spi_setup_status env)"
  let ?w1 = "emit ?c (w\<lparr>ctx := (ctx w)\<lparr>spi_workqueue :=
                          (if create_workqueue_ok env then Some 0 else None)\<rparr>\<rparr>)"
  let ?w3 = "emit ?m (?w1\<lparr>ctx := (ctx ?w1)\<lparr>spi_work_pending := False, tx_q := [], rx_q := []\<rparr>\<rparr>)"
  let ?w4 = "emit ?d (?w3\<lparr>ctx := (ctx ?w3)\<lparr>esp_spi_dev := spi_new_device_ok env\<rparr>\<rparr>)"
  let ?w5 = "emit ?s ?w4"
  consider (f1) "\<not> create_workqueue_ok env"
    | (f2) "create_workqueue_ok env" "\<not> spi_busnum_to_master_ok env"
    | (f3) "create_workqueue_ok env" "spi_busnum_to_master_ok env" "\<not> spi_new_device_ok env"
    | (f4) "create_workqueue_ok env" "spi_busnum_to_master_ok env" "spi_new_device_ok env"
           "spi_setup_status env \<noteq> 0"
    | (lines) "create_workqueue_ok env" "spi_busnum_to_master_ok env" "spi_new_device_ok env"
           "spi_setup_status env = 0"
    by blast
  then show ?thesis
  proof cases
    case f1
    from rollback_after [of ?w1 "trace w"
        "[?c]" a B envs "- EFAULT"] assms f1
    show ?thesis
      by (simp add: spi_init_def Let_def init_steps_def rollback_ready_def held_after_def
          hold_step_def queued_activations_def EFAULT_def)
  next
    case f2
    from rollback_after [of "emit Printk ?w3" "trace w"
        "[?c, ?m, Printk]" a B envs "- ENODEV"] assms f2
    show ?thesis
      by (simp add: spi_init_def Let_def init_steps_def rollback_ready_def held_after_def
          hold_step_def queued_activations_def ENODEV_def)
  next
    case f3
    from rollback_after [of "emit Printk ?w4" "trace w"
        "[?c, ?m, ?d, Printk]" a B envs "- ENODEV"] assms f3
    show ?thesis
      by (simp add: spi_init_def Let_def init_steps_def rollback_ready_def held_after_def
          hold_step_def queued_activations_def ENODEV_def)
  next
    case f4
    from rollback_after [of "emit Printk ?w5" "trace w"
        "[?c, ?m, ?d, ?s, Printk]" a B envs "spi_setup_status env"] assms f4
    show ?thesis
      by (simp add: spi_init_def Let_def init_steps_def rollback_ready_def held_after_def
          hold_step_def queued_activations_def)
  next
    case lines
    from spi_init_lines_result [of "emit Printk ?w5" "trace w"
        "[?c, ?m, ?d, ?s, Printk]" a B envs env]
      assms lines
    show ?thesis
      by (simp add: spi_init_def Let_def init_steps_def rollback_ready_def held_after_def
          hold_step_def queued_activations_def)
  qed
qed

lemma held_after_Cons_neutral:
  assumes "acquires e = None" and "releases e = None"
  shows "held_after (e # evs) r = held_after evs r"
  using assms by (simp add: held_after_def hold_step_def)

text \<open>
  C8 fails on the code: when \<^verbatim>\<open>esp_add_card\<close> fails, the rollback runs and zeroes the
  context, and \<open>-12\<close> is returned, but the interrupt that \<^verbatim>\<open>request_irq\<close> registered is
  still registered afterwards, and the reference that \<^verbatim>\<open>spi_busnum_to_master\<close> returned
  is still held: \<^verbatim>\<open>spi_exit\<close> has no call that gives either back.
\<close>

theorem init_card_failure_keeps_interrupt:
  "esp_init_interface_layer B envs init_env_card_fails (Some adapter0) world0 =
     Inr (- 12, \<lparr>ctx = zero_context, trace = card_failure_trace\<rparr>)
   \<and> held_after card_failure_trace Interrupt
   \<and> held_after card_failure_trace Spi_master"
  by (simp add: esp_init_interface_layer_def spi_init_def spi_init_lines_def spi_init_cards_def
      rollback_def rollback_log_def spi_exit_cases queued_activations_def
      init_env_card_fails_def init_env_ok_def
      adapter0_def world0_def emit_def teardown_calls_def zero_context_def Let_def
      card_failure_trace_def held_after_def hold_step_def)

text \<open>
  What holds for every combination of step results.
  \<^verbatim>\<open>esp_init_interface_layer\<close> returns \<^verbatim>\<open>-EINVAL\<close> on a NULL adapter and touches
  nothing. On an adapter it completes and returns the error of the first step that fails
  (0 when none does); when a step fails, the teardown has run (\<^verbatim>\<open>esp_serial_cleanup\<close>,
  \<^verbatim>\<open>esp_remove_card\<close> and \<^verbatim>\<open>gpio_free\<close> were called), the context is zero, and of
  all that was acquired only the interrupt and the reference to the bus controller can
  still be held.
\<close>

lemma init_failure_runs_teardown:
  "esp_init_interface_layer B envs env None w = Inr (- EINVAL, w)
   \<and> (\<exists>r w'. esp_init_interface_layer B envs env (Some a) w = Inr (r, w')
         \<and> r = first_failure (init_steps env)
         \<and> (r \<noteq> 0 \<longrightarrow>
               ctx w' = zero_context
             \<and> {Esp_serial_cleanup, Esp_remove_card, Gpio_free} \<subseteq> set (new_events w w')
             \<and> (\<forall>res. held_after (new_events w w') res \<longrightarrow>
                        res = Interrupt \<or> res = Spi_master)))"
proof -
  let ?w1 = "(emit Memset_spi_context w)
               \<lparr>ctx := zero_context\<lparr>adapter := Some (a\<lparr>if_context := True, if_ops := True\<rparr>)\<rparr>\<rparr>"
  have ad: "adapter (ctx ?w1) = Some (a\<lparr>if_context := True, if_ops := True\<rparr>)" by simp
  from spi_init_result [OF ad, of B envs env]
  obtain w' where run: "spi_init B envs env ?w1 = Inr (first_failure (init_steps env), w')"
    and rb: "first_failure (init_steps env) \<noteq> 0 \<longrightarrow> rolled_back (trace ?w1) w'" by blast
  have "first_failure (init_steps env) \<noteq> 0 \<longrightarrow>
          ctx w' = zero_context
        \<and> {Esp_serial_cleanup, Esp_remove_card, Gpio_free} \<subseteq> set (new_events w w')
        \<and> (\<forall>res. held_after (new_events w w') res \<longrightarrow> res = Interrupt \<or> res = Spi_master)"
  proof
    assume "first_failure (init_steps env) \<noteq> 0"
    with rb obtain evs where z: "ctx w' = zero_context"
      and t: "trace w' = trace ?w1 @ evs"
      and h: "\<forall>r. held_after evs r \<longrightarrow> r = Interrupt \<or> r = Spi_master"
      and u: "{Esp_serial_cleanup, Esp_remove_card, Gpio_free} \<subseteq> set evs"
      unfolding rolled_back_def by blast
    from t have n: "new_events w w' = Memset_spi_context # evs"
      by (simp add: new_events_def)
    show "ctx w' = zero_context
        \<and> {Esp_serial_cleanup, Esp_remove_card, Gpio_free} \<subseteq> set (new_events w w')
        \<and> (\<forall>res. held_after (new_events w w') res \<longrightarrow> res = Interrupt \<or> res = Spi_master)"
      using z h u by (simp add: n held_after_Cons_neutral)
  qed
  with run show ?thesis
    by (simp add: esp_init_interface_layer_def Let_def)
qed

end
